theory Spec2Isabelle
  imports Main
begin

section \<open>Data model\<close>

text \<open>
  The persisted profile document, as the three object literals \<^verbatim>\<open>newUser: User\<close> of
  \<^verbatim>\<open>AuthGate.tsx\<close> build it. The numeric fields are JavaScript numbers that hold integers;
  they are modelled as \<^typ>\<open>int\<close>, which agrees with the source as long as every value
  stays inside the safe integer range. Strings are byte strings: a text with characters
  beyond ASCII is its UTF-8 encoding, which preserves concatenation, equality and
  emptiness, the only string operations the source uses.
\<close>

record User =
  uid :: string
  name :: string
  email :: string
  points :: int
  xp :: int
  level :: int
  role :: string
  isGhostMode :: bool
  twoFactorEnabled :: bool
  joinedAt :: int

text \<open>The account object handed back by the authentication provider.\<close>

record firebase_user =
  fb_uid :: string
  displayName :: "string option"
  fb_email :: "string option"

text \<open>The payload the external identity widget passes to \<^verbatim>\<open>window.onTelegramAuth\<close>.\<close>

record tg_user =
  tg_id :: int
  first_name :: string
  last_name :: "string option"
  username :: "string option"

subsection \<open>Errors and results of asynchronous calls\<close>

datatype store_error = Unavailable | NotFound

datatype js_error = AuthError string | StoreError store_error

fun error_code :: "js_error \<Rightarrow> string" where
  "error_code (AuthError c) = c"
| "error_code (StoreError Unavailable) = ''unavailable''"
| "error_code (StoreError NotFound) = ''not-found''"

text \<open>How a promise of type \<^verbatim>\<open>Promise<void>\<close> settles.\<close>

datatype outcome = Resolved | Rejected js_error

subsection \<open>Partial writes\<close>

text \<open>One entry of the object literal passed to \<^verbatim>\<open>updateDoc\<close>.\<close>

datatype field_update =
    Set_uid string
  | Set_name string
  | Set_email string
  | Set_points int
  | Set_xp int
  | Set_level int
  | Set_role string
  | Set_isGhostMode bool
  | Set_twoFactorEnabled bool
  | Set_joinedAt int

fun apply_field :: "field_update \<Rightarrow> User \<Rightarrow> User" where
  "apply_field (Set_uid v) d = d\<lparr>uid := v\<rparr>"
| "apply_field (Set_name v) d = d\<lparr>name := v\<rparr>"
| "apply_field (Set_email v) d = d\<lparr>email := v\<rparr>"
| "apply_field (Set_points v) d = d\<lparr>points := v\<rparr>"
| "apply_field (Set_xp v) d = d\<lparr>xp := v\<rparr>"
| "apply_field (Set_level v) d = d\<lparr>level := v\<rparr>"
| "apply_field (Set_role v) d = d\<lparr>role := v\<rparr>"
| "apply_field (Set_isGhostMode v) d = d\<lparr>isGhostMode := v\<rparr>"
| "apply_field (Set_twoFactorEnabled v) d = d\<lparr>twoFactorEnabled := v\<rparr>"
| "apply_field (Set_joinedAt v) d = d\<lparr>joinedAt := v\<rparr>"

fun merge_fields :: "field_update list \<Rightarrow> User \<Rightarrow> User" where
  "merge_fields [] d = d"
| "merge_fields (f # fs) d = merge_fields fs (apply_field f d)"

datatype store_write = SetDoc string User | UpdateDoc string "field_update list"

section \<open>The state of the client and of its collaborators\<close>

text \<open>
  One record holds the React state of \<^verbatim>\<open>App\<close> (\<open>user\<close>, \<open>isLoading\<close>, \<open>toast\<close> and
  the number of pending \<^verbatim>\<open>setTimeout\<close> callbacks that clear the toast), the React state of
  \<^verbatim>\<open>AuthGate\<close> (\<open>isLogin\<close>, the three form inputs, \<open>loading\<close>, \<open>error\<close>), and the
  state of the two services the components talk to: the documents of the collection
  \<^verbatim>\<open>users\<close>, whether the store answers, the writes the client has sent to it, the
  documents that have a snapshot listener attached, and the signed-in account.
\<close>

record world =
  user :: "User option"
  isLoading :: bool
  toast :: "(string \<times> string) option"
  toast_timers :: nat
  isLogin :: bool
  email_input :: string
  password_input :: string
  name_input :: string
  loading :: bool
  error :: string
  docs :: "string \<rightharpoonup> User"
  store_down :: bool
  writes :: "store_write list"
  listeners :: "string list"
  currentUser :: "string option"

section \<open>String literals of the source\<close>

text \<open>Each literal is the UTF-8 encoding of the text in the source file.\<close>

definition msg_telegram_failed :: string where
  "msg_telegram_failed =
    [CHR 0xD9, CHR 0x81, CHR 0xD8, CHR 0xB4, CHR 0xD9, CHR 0x84, CHR 0x20, CHR 0xD8, CHR 0xAA,
     CHR 0xD8, CHR 0xB3, CHR 0xD8, CHR 0xAC, CHR 0xD9, CHR 0x8A, CHR 0xD9, CHR 0x84, CHR 0x20,
     CHR 0xD8, CHR 0xA7, CHR 0xD9, CHR 0x84, CHR 0xD8, CHR 0xAF, CHR 0xD8, CHR 0xAE, CHR 0xD9,
     CHR 0x88, CHR 0xD9, CHR 0x84, CHR 0x20, CHR 0xD8, CHR 0xB9, CHR 0xD8, CHR 0xA8, CHR 0xD8,
     CHR 0xB1, CHR 0x20, CHR 0xD8, CHR 0xAA, CHR 0xD9, CHR 0x84, CHR 0xD9, CHR 0x8A, CHR 0xD8,
     CHR 0xAC, CHR 0xD8, CHR 0xB1, CHR 0xD8, CHR 0xA7, CHR 0xD9, CHR 0x85, CHR 0x2E, CHR 0x20,
     CHR 0xD8, CHR 0xAD, CHR 0xD8, CHR 0xA7, CHR 0xD9, CHR 0x88, CHR 0xD9, CHR 0x84, CHR 0x20,
     CHR 0xD9, CHR 0x84, CHR 0xD8, CHR 0xA7, CHR 0xD8, CHR 0xAD, CHR 0xD9, CHR 0x82, CHR 0xD8,
     CHR 0xA7, CHR 0xD9, CHR 0x8B, CHR 0x2E]"

definition msg_google_failed :: string where
  "msg_google_failed =
    [CHR 0xD9, CHR 0x81, CHR 0xD8, CHR 0xB4, CHR 0xD9, CHR 0x84, CHR 0x20, CHR 0xD8, CHR 0xA7,
     CHR 0xD9, CHR 0x84, CHR 0xD8, CHR 0xAF, CHR 0xD8, CHR 0xAE, CHR 0xD9, CHR 0x88, CHR 0xD9,
     CHR 0x84, CHR 0x20, CHR 0xD8, CHR 0xA8, CHR 0xD8, CHR 0xAC, CHR 0xD9, CHR 0x88, CHR 0xD8,
     CHR 0xAC, CHR 0xD9, CHR 0x84, CHR 0x2E, CHR 0x20, CHR 0xD8, CHR 0xAA, CHR 0xD8, CHR 0xA3,
     CHR 0xD9, CHR 0x83, CHR 0xD8, CHR 0xAF, CHR 0x20, CHR 0xD9, CHR 0x85, CHR 0xD9, CHR 0x86,
     CHR 0x20, CHR 0xD8, CHR 0xA7, CHR 0xD9, CHR 0x84, CHR 0xD8, CHR 0xB3, CHR 0xD9, CHR 0x85,
     CHR 0xD8, CHR 0xA7, CHR 0xD8, CHR 0xAD, CHR 0x20, CHR 0xD8, CHR 0xA8, CHR 0xD8, CHR 0xA7,
     CHR 0xD9, CHR 0x84, CHR 0xD9, CHR 0x86, CHR 0xD9, CHR 0x88, CHR 0xD8, CHR 0xA7, CHR 0xD9,
     CHR 0x81, CHR 0xD8, CHR 0xB0, CHR 0x20, CHR 0xD8, CHR 0xA7, CHR 0xD9, CHR 0x84, CHR 0xD9,
     CHR 0x85, CHR 0xD9, CHR 0x86, CHR 0xD8, CHR 0xA8, CHR 0xD8, CHR 0xAB, CHR 0xD9, CHR 0x82,
     CHR 0xD8, CHR 0xA9, CHR 0x2E]"

definition default_google_name :: string where
  "default_google_name =
    [CHR 0xD8, CHR 0xB3, CHR 0xD9, CHR 0x84, CHR 0xD8, CHR 0xB7, CHR 0xD8, CHR 0xA7, CHR 0xD9,
     CHR 0x86, CHR 0x20, CHR 0xD9, CHR 0x85, CHR 0xD8, CHR 0xAC, CHR 0xD9, CHR 0x87, CHR 0xD9,
     CHR 0x88, CHR 0xD9, CHR 0x84]"

definition default_signup_name :: string where
  "default_signup_name =
    [CHR 0xD8, CHR 0xB3, CHR 0xD9, CHR 0x84, CHR 0xD8, CHR 0xB7, CHR 0xD8, CHR 0xA7, CHR 0xD9,
     CHR 0x86, CHR 0x20, CHR 0xD8, CHR 0xAC, CHR 0xD8, CHR 0xAF, CHR 0xD9, CHR 0x8A, CHR 0xD8,
     CHR 0xAF]"

definition msg_user_not_found :: string where
  "msg_user_not_found =
    [CHR 0xD8, CHR 0xA7, CHR 0xD9, CHR 0x84, CHR 0xD9, CHR 0x85, CHR 0xD8, CHR 0xB3, CHR 0xD8,
     CHR 0xAA, CHR 0xD8, CHR 0xAE, CHR 0xD8, CHR 0xAF, CHR 0xD9, CHR 0x85, CHR 0x20, CHR 0xD8,
     CHR 0xBA, CHR 0xD9, CHR 0x8A, CHR 0xD8, CHR 0xB1, CHR 0x20, CHR 0xD9, CHR 0x85, CHR 0xD9,
     CHR 0x88, CHR 0xD8, CHR 0xAC, CHR 0xD9, CHR 0x88, CHR 0xD8, CHR 0xAF]"

definition msg_bad_credentials :: string where
  "msg_bad_credentials =
    [CHR 0xD8, CHR 0xAE, CHR 0xD8, CHR 0xB7, CHR 0xD8, CHR 0xA3, CHR 0x20, CHR 0xD9, CHR 0x81,
     CHR 0xD9, CHR 0x8A, CHR 0x20, CHR 0xD8, CHR 0xA7, CHR 0xD9, CHR 0x84, CHR 0xD8, CHR 0xA8,
     CHR 0xD8, CHR 0xB1, CHR 0xD9, CHR 0x8A, CHR 0xD8, CHR 0xAF, CHR 0x20, CHR 0xD8, CHR 0xA3,
     CHR 0xD9, CHR 0x88, CHR 0x20, CHR 0xD9, CHR 0x83, CHR 0xD9, CHR 0x84, CHR 0xD9, CHR 0x85,
     CHR 0xD8, CHR 0xA9, CHR 0x20, CHR 0xD8, CHR 0xA7, CHR 0xD9, CHR 0x84, CHR 0xD9, CHR 0x85,
     CHR 0xD8, CHR 0xB1, CHR 0xD9, CHR 0x88, CHR 0xD8, CHR 0xB1]"

definition msg_level_up_prefix :: string where
  "msg_level_up_prefix =
    [CHR 0xD8, CHR 0xAA, CHR 0xD8, CHR 0xA8, CHR 0xD8, CHR 0xB1, CHR 0xD9, CHR 0x8A, CHR 0xD9,
     CHR 0x83, CHR 0xD8, CHR 0xA7, CHR 0xD8, CHR 0xAA, CHR 0x20, CHR 0xD8, CHR 0xA5, CHR 0xD9,
     CHR 0x85, CHR 0xD8, CHR 0xA8, CHR 0xD8, CHR 0xB1, CHR 0xD8, CHR 0xA7, CHR 0xD8, CHR 0xB7,
     CHR 0xD9, CHR 0x88, CHR 0xD8, CHR 0xB1, CHR 0xD9, CHR 0x8A, CHR 0xD8, CHR 0xA9, CHR 0x21,
     CHR 0x20, CHR 0xD8, CHR 0xA7, CHR 0xD8, CHR 0xB1, CHR 0xD8, CHR 0xAA, CHR 0xD9, CHR 0x82,
     CHR 0xD9, CHR 0x8A, CHR 0xD8, CHR 0xAA, CHR 0x20, CHR 0xD9, CHR 0x84, CHR 0xD9, CHR 0x84,
     CHR 0xD9, CHR 0x85, CHR 0xD8, CHR 0xB3, CHR 0xD8, CHR 0xAA, CHR 0xD9, CHR 0x88, CHR 0xD9,
     CHR 0x89, CHR 0x20]"

definition msg_level_up_suffix :: string where
  "msg_level_up_suffix =
    [CHR 0x20, CHR 0xF0, CHR 0x9F, CHR 0x8F, CHR 0x86]"

definition msg_ghost_off :: string where
  "msg_ghost_off =
    [CHR 0xD8, CHR 0xAA, CHR 0xD9, CHR 0x85, CHR 0x20, CHR 0xD8, CHR 0xA5, CHR 0xD9, CHR 0x84,
     CHR 0xD8, CHR 0xBA, CHR 0xD8, CHR 0xA7, CHR 0xD8, CHR 0xA1, CHR 0x20, CHR 0xD9, CHR 0x88,
     CHR 0xD8, CHR 0xB6, CHR 0xD8, CHR 0xB9, CHR 0x20, CHR 0xD8, CHR 0xA7, CHR 0xD9, CHR 0x84,
     CHR 0xD8, CHR 0xB4, CHR 0xD8, CHR 0xA8, CHR 0xD8, CHR 0xAD]"

definition msg_ghost_on :: string where
  "msg_ghost_on =
    [CHR 0xD8, CHR 0xA3, CHR 0xD9, CHR 0x86, CHR 0xD8, CHR 0xAA, CHR 0x20, CHR 0xD8, CHR 0xA7,
     CHR 0xD9, CHR 0x84, CHR 0xD8, CHR 0xA2, CHR 0xD9, CHR 0x86, CHR 0x20, CHR 0xD9, CHR 0x85,
     CHR 0xD8, CHR 0xAA, CHR 0xD8, CHR 0xAE, CHR 0xD9, CHR 0x81, CHR 0xD9, CHR 0x8D, CHR 0x20,
     CHR 0xD9, CHR 0x81, CHR 0xD9, CHR 0x8A, CHR 0x20, CHR 0xD8, CHR 0xA7, CHR 0xD9, CHR 0x84,
     CHR 0xD8, CHR 0xA5, CHR 0xD9, CHR 0x85, CHR 0xD8, CHR 0xA8, CHR 0xD8, CHR 0xB1, CHR 0xD8,
     CHR 0xA7, CHR 0xD8, CHR 0xB7, CHR 0xD9, CHR 0x88, CHR 0xD8, CHR 0xB1, CHR 0xD9, CHR 0x8A,
     CHR 0xD8, CHR 0xA9, CHR 0x20, CHR 0xF0, CHR 0x9F, CHR 0x91, CHR 0xBB]"

definition msg_logged_out :: string where
  "msg_logged_out =
    [CHR 0xD8, CHR 0xAA, CHR 0xD9, CHR 0x85, CHR 0x20, CHR 0xD8, CHR 0xA7, CHR 0xD9, CHR 0x84,
     CHR 0xD8, CHR 0xAE, CHR 0xD8, CHR 0xB1, CHR 0xD9, CHR 0x88, CHR 0xD8, CHR 0xAC, CHR 0x20,
     CHR 0xD9, CHR 0x85, CHR 0xD9, CHR 0x86, CHR 0x20, CHR 0xD8, CHR 0xA7, CHR 0xD9, CHR 0x84,
     CHR 0xD8, CHR 0xB9, CHR 0xD8, CHR 0xB1, CHR 0xD8, CHR 0xB4, CHR 0x20, CHR 0xD8, CHR 0xA8,
     CHR 0xD9, CHR 0x86, CHR 0xD8, CHR 0xAC, CHR 0xD8, CHR 0xA7, CHR 0xD8, CHR 0xAD]"

subsection \<open>Numbers in template literals\<close>

fun show_nat :: "nat \<Rightarrow> string" where
  "show_nat n =
     (if n < 10 then [''0123456789'' ! n]
      else show_nat (n div 10) @ [''0123456789'' ! (n mod 10)])"

definition show_int :: "int \<Rightarrow> string" where
  "show_int i = (if i < 0 then ''-'' @ show_nat (nat (- i)) else show_nat (nat i))"

text \<open>The operator \<^verbatim>\<open>||\<close> on a string that may be missing: the empty string is falsy.\<close>

fun or_else :: "string option \<Rightarrow> string \<Rightarrow> string" where
  "or_else None d = d"
| "or_else (Some s) d = (if s = [] then d else s)"

section \<open>The remote profile store\<close>

text \<open>
  The store client (\<^verbatim>\<open>getDoc\<close>, \<^verbatim>\<open>setDoc\<close>, \<^verbatim>\<open>updateDoc\<close>, \<^verbatim>\<open>onSnapshot\<close>) is imported
  by the source from the SDK and is not part of it. Section 6 of the specification gives
  its interface, and the definitions of this section follow it. Every request to a store
  that does not answer is rejected, and every write the client sends is recorded in
  \<open>writes\<close>, whether it succeeds or not.
\<close>

text \<open>
  Modelled from the spec: \<^verbatim>\<open>getDoc\<close> of the SDK, the operation \<open>get(uid)\<close> that returns
  the profile or its absence.
\<close>

definition getDoc :: "string \<Rightarrow> world \<Rightarrow> js_error + User option" where
  "getDoc k w = (if store_down w then Inl (StoreError Unavailable) else Inr (docs w k))"

text \<open>
  Modelled from the spec: \<^verbatim>\<open>setDoc\<close> of the SDK, the operation \<open>set(uid, Profile)\<close>, a
  full overwrite.
\<close>

definition setDoc :: "string \<Rightarrow> User \<Rightarrow> world \<Rightarrow> outcome \<times> world" where
  "setDoc k v w =
     (let w' = w\<lparr>writes := writes w @ [SetDoc k v]\<rparr>
      in if store_down w then (Rejected (StoreError Unavailable), w')
         else (Resolved, w'\<lparr>docs := (docs w)(k \<mapsto> v)\<rparr>))"

text \<open>
  Modelled from the spec: \<^verbatim>\<open>updateDoc\<close> of the SDK, the operation
  \<open>update(uid, partialFields)\<close>, a merge-write. The SDK rejects the update of a document
  that does not exist.
\<close>

definition updateDoc :: "string \<Rightarrow> field_update list \<Rightarrow> world \<Rightarrow> outcome \<times> world" where
  "updateDoc k fs w =
     (let w' = w\<lparr>writes := writes w @ [UpdateDoc k fs]\<rparr>
      in if store_down w then (Rejected (StoreError Unavailable), w')
         else (case docs w k of
                 None \<Rightarrow> (Rejected (StoreError NotFound), w')
               | Some d \<Rightarrow> (Resolved, w'\<lparr>docs := (docs w)(k \<mapsto> merge_fields fs d)\<rparr>)))"

text \<open>
  Modelled from the spec: \<^verbatim>\<open>onSnapshot\<close> of the SDK, the operation
  \<open>subscribe(uid, onChange)\<close>. It attaches a listener to a document and returns the
  function that detaches it; the model returns the state only.
\<close>

definition onSnapshot :: "string \<Rightarrow> world \<Rightarrow> world" where
  "onSnapshot k w = w\<lparr>listeners := listeners w @ [k]\<rparr>"

text \<open>
  Modelled from the spec: the \<open>unsubscribeHandle\<close> that \<open>subscribe\<close> returns. Calling it
  detaches one listener of the document.
\<close>

definition unsubscribe :: "string \<Rightarrow> world \<Rightarrow> world" where
  "unsubscribe k w = w\<lparr>listeners := remove1 k (listeners w)\<rparr>"

text \<open>
  Modelled from the spec: a remote change of a document, that is a write by another client
  of the store.
\<close>

definition remote_write :: "string \<Rightarrow> User \<Rightarrow> world \<Rightarrow> world" where
  "remote_write k v w = w\<lparr>docs := (docs w)(k \<mapsto> v)\<rparr>"

section \<open>App.tsx\<close>

text \<open>The callback given to \<open>onSnapshot\<close> (lines 39 to 41).\<close>

definition snapshot_callback :: "User option \<Rightarrow> world \<Rightarrow> world" where
  "snapshot_callback ds w = (case ds of None \<Rightarrow> w | Some d \<Rightarrow> w\<lparr>user := Some d\<rparr>)"

text \<open>
  Modelled from the spec: the store delivers a snapshot. On a change of a document the
  subscription calls the handler of a listener attached to it with the document's current
  content; a document without a listener has nobody to call.
\<close>

definition deliver_snapshot :: "string \<Rightarrow> world \<Rightarrow> world" where
  "deliver_snapshot k w =
     (if k \<in> set (listeners w) then snapshot_callback (docs w k) w else w)"

text \<open>The callback given to \<open>onAuthStateChanged\<close> (lines 29 to 55).\<close>

definition authStateChanged :: "firebase_user option \<Rightarrow> world \<Rightarrow> world" where
  "authStateChanged firebaseUser w =
     (case firebaseUser of
        None \<Rightarrow> w\<lparr>user := None, isLoading := False\<rparr>
      | Some fu \<Rightarrow>
          (case getDoc (fb_uid fu) w of
             Inl e \<Rightarrow> w\<lparr>isLoading := False\<rparr>
           | Inr None \<Rightarrow> w\<lparr>user := None, isLoading := False\<rparr>
           | Inr (Some d) \<Rightarrow>
               (onSnapshot (fb_uid fu) (w\<lparr>user := Some d\<rparr>))\<lparr>isLoading := False\<rparr>))"

text \<open>
  \<open>showToast\<close> sets the toast and schedules the callback that clears it after three
  seconds; \<open>toast_timeout\<close> is that callback running. The colour is optional in the source.
\<close>

definition showToast :: "string \<Rightarrow> string option \<Rightarrow> world \<Rightarrow> world" where
  "showToast message color w =
     w\<lparr>toast := Some (message, case color of None \<Rightarrow> ''#ffd700'' | Some c \<Rightarrow> c),
       toast_timers := Suc (toast_timers w)\<rparr>"

definition toast_timeout :: "world \<Rightarrow> world" where
  "toast_timeout w =
     (if toast_timers w = 0 then w
      else w\<lparr>toast := None, toast_timers := toast_timers w - 1\<rparr>)"

definition level_up_message :: "int \<Rightarrow> string" where
  "level_up_message newLevel = msg_level_up_prefix @ show_int newLevel @ msg_level_up_suffix"

definition addXP :: "int \<Rightarrow> world \<Rightarrow> outcome \<times> world" where
  "addXP amount w =
     (case user w of
        None \<Rightarrow> (Resolved, w)
      | Some u \<Rightarrow>
          (let newXP = xp u + amount;
               newLevel = level u;
               xpToNextLevel = level u * 1000
           in if newXP \<ge> xpToNextLevel
              then updateDoc (uid u)
                     [Set_xp (newXP - xpToNextLevel), Set_level (newLevel + 1)]
                     (showToast (level_up_message (newLevel + 1)) (Some ''#ffd700'') w)
              else updateDoc (uid u) [Set_xp newXP, Set_level newLevel] w))"

definition updatePoints :: "int \<Rightarrow> world \<Rightarrow> outcome \<times> world" where
  "updatePoints amount w =
     (case user w of
        None \<Rightarrow> (Resolved, w)
      | Some u \<Rightarrow> updateDoc (uid u) [Set_points (points u + amount)] w)"

definition handleToggleGhost :: "world \<Rightarrow> outcome \<times> world" where
  "handleToggleGhost w =
     (case user w of
        None \<Rightarrow> (Resolved, w)
      | Some u \<Rightarrow>
          (case updateDoc (uid u) [Set_isGhostMode (\<not> isGhostMode u)] w of
             (Rejected e, w') \<Rightarrow> (Rejected e, w')
           | (Resolved, w') \<Rightarrow>
               (Resolved,
                showToast (if isGhostMode u then msg_ghost_off else msg_ghost_on) None w')))"

text \<open>
  Modelled from the spec: \<^verbatim>\<open>signOut\<close> of the authentication provider, which terminates
  the authentication session unless it fails; whether it fails is an input.
\<close>

definition signOut :: "js_error option \<Rightarrow> world \<Rightarrow> outcome \<times> world" where
  "signOut failure w =
     (case failure of
        Some e \<Rightarrow> (Rejected e, w)
      | None \<Rightarrow> (Resolved, w\<lparr>currentUser := None\<rparr>))"

text \<open>\<open>handleLogout\<close> is lines 94 to 100.\<close>

definition handleLogout :: "js_error option \<Rightarrow> world \<Rightarrow> outcome \<times> world" where
  "handleLogout failure w =
     (case signOut failure (w\<lparr>isLoading := True\<rparr>) of
        (Rejected e, w') \<Rightarrow> (Rejected e, w')
      | (Resolved, w') \<Rightarrow>
          (Resolved,
           (showToast msg_logged_out (Some ''#ff4444'') (w'\<lparr>user := None\<rparr>))
             \<lparr>isLoading := False\<rparr>))"

section \<open>AuthGate.tsx\<close>

text \<open>
  The object literal \<open>newUser\<close>, which the three sign-in paths write with the same
  constants and their own name and email.
\<close>

definition newUser :: "string \<Rightarrow> string \<Rightarrow> string \<Rightarrow> int \<Rightarrow> User" where
  "newUser k nm em now =
     \<lparr>uid = k, name = nm, email = em, points = 1000, xp = 0, level = 1,
      role = ''member'', isGhostMode = False, twoFactorEnabled = False, joinedAt = now\<rparr>"

text \<open>
  Modelled from the spec: the sign-in operations of the authentication provider
  (\<^verbatim>\<open>signInAnonymously\<close>, \<^verbatim>\<open>signInWithPopup\<close>, \<^verbatim>\<open>signInWithEmailAndPassword\<close>,
  \<^verbatim>\<open>createUserWithEmailAndPassword\<close>). Each answers with an error or with the account; the
  answer is an input of the handler that makes the call, and a successful call makes the
  account the current one.
\<close>

definition signedIn :: "firebase_user \<Rightarrow> world \<Rightarrow> world" where
  "signedIn fu w = w\<lparr>currentUser := Some (fb_uid fu)\<rparr>"

text \<open>
  The three handlers. \<open>answer\<close> is the answer of the authentication provider and \<open>now\<close>
  the value of \<^verbatim>\<open>Date.now()\<close>. In \<open>onTelegramAuth\<close> the name and the email of the new
  profile are the expressions of lines 45 and 46.
\<close>

definition tg_name :: "tg_user \<Rightarrow> string" where
  "tg_name tgUser =
     first_name tgUser @
       (case last_name tgUser of
          None \<Rightarrow> []
        | Some l \<Rightarrow> if l = [] then [] else '' '' @ l)"

definition tg_email :: "tg_user \<Rightarrow> string" where
  "tg_email tgUser =
     (case username tgUser of
        None \<Rightarrow> ''tg_'' @ show_int (tg_id tgUser)
      | Some h \<Rightarrow> if h = [] then ''tg_'' @ show_int (tg_id tgUser) else ''@'' @ h)"

definition onTelegramAuth :: "js_error + firebase_user \<Rightarrow> int \<Rightarrow> tg_user \<Rightarrow> world \<Rightarrow> world" where
  "onTelegramAuth answer now tgUser w =
     (let w1 = w\<lparr>loading := True, error := []\<rparr>
      in case answer of
           Inl e \<Rightarrow> w1\<lparr>error := msg_telegram_failed, loading := False\<rparr>
         | Inr fu \<Rightarrow>
             (let w2 = signedIn fu w1
              in case getDoc (fb_uid fu) w2 of
                   Inl e \<Rightarrow> w2\<lparr>error := msg_telegram_failed, loading := False\<rparr>
                 | Inr (Some d) \<Rightarrow> w2\<lparr>loading := False\<rparr>
                 | Inr None \<Rightarrow>
                     (case setDoc (fb_uid fu)
                             (newUser (fb_uid fu) (tg_name tgUser) (tg_email tgUser) now) w2 of
                        (Rejected e, w3) \<Rightarrow> w3\<lparr>error := msg_telegram_failed, loading := False\<rparr>
                      | (Resolved, w3) \<Rightarrow> w3\<lparr>loading := False\<rparr>)))"

definition handleGoogleLogin :: "js_error + firebase_user \<Rightarrow> int \<Rightarrow> world \<Rightarrow> world" where
  "handleGoogleLogin answer now w =
     (let w1 = w\<lparr>loading := True, error := []\<rparr>
      in case answer of
           Inl e \<Rightarrow> w1\<lparr>error := msg_google_failed, loading := False\<rparr>
         | Inr fu \<Rightarrow>
             (let w2 = signedIn fu w1
              in case getDoc (fb_uid fu) w2 of
                   Inl e \<Rightarrow> w2\<lparr>error := msg_google_failed, loading := False\<rparr>
                 | Inr (Some d) \<Rightarrow> w2\<lparr>loading := False\<rparr>
                 | Inr None \<Rightarrow>
                     (case setDoc (fb_uid fu)
                             (newUser (fb_uid fu)
                                (or_else (displayName fu) default_google_name)
                                (or_else (fb_email fu) []) now) w2 of
                        (Rejected e, w3) \<Rightarrow> w3\<lparr>error := msg_google_failed, loading := False\<rparr>
                      | (Resolved, w3) \<Rightarrow> w3\<lparr>loading := False\<rparr>)))"

definition submit_error :: "js_error \<Rightarrow> string" where
  "submit_error err =
     (if error_code err = ''auth/user-not-found'' then msg_user_not_found
      else msg_bad_credentials)"

definition handleSubmit :: "js_error + firebase_user \<Rightarrow> int \<Rightarrow> world \<Rightarrow> world" where
  "handleSubmit answer now w =
     (if loading w then w
      else
        (let w1 = w\<lparr>loading := True, error := []\<rparr>
         in if isLogin w
            then (case answer of
                    Inl e \<Rightarrow> w1\<lparr>error := submit_error e, loading := False\<rparr>
                  | Inr fu \<Rightarrow> (signedIn fu w1)\<lparr>loading := False\<rparr>)
            else (case answer of
                    Inl e \<Rightarrow> w1\<lparr>error := submit_error e, loading := False\<rparr>
                  | Inr fu \<Rightarrow>
                      (case setDoc (fb_uid fu)
                              (newUser (fb_uid fu)
                                 (or_else (Some (name_input w)) default_signup_name)
                                 (email_input w) now) (signedIn fu w1) of
                         (Rejected e, w3) \<Rightarrow> w3\<lparr>error := submit_error e, loading := False\<rparr>
                       | (Resolved, w3) \<Rightarrow> w3\<lparr>loading := False\<rparr>))))"

text \<open>The handlers of the form inputs and of the button that switches between sign-in and sign-up.\<close>

definition setEmail :: "string \<Rightarrow> world \<Rightarrow> world" where
  "setEmail v w = w\<lparr>email_input := v\<rparr>"

definition setPassword :: "string \<Rightarrow> world \<Rightarrow> world" where
  "setPassword v w = w\<lparr>password_input := v\<rparr>"

definition setName :: "string \<Rightarrow> world \<Rightarrow> world" where
  "setName v w = w\<lparr>name_input := v\<rparr>"

definition toggleIsLogin :: "world \<Rightarrow> world" where
  "toggleIsLogin w = w\<lparr>isLogin := \<not> isLogin w\<rparr>"

section \<open>The state at mount\<close>

text \<open>
  The initial values of the \<^verbatim>\<open>useState\<close> calls of both components, over a store with the
  given documents, nobody signed in and no listener attached.
\<close>

definition initial_world :: "(string \<rightharpoonup> User) \<Rightarrow> world" where
  "initial_world ds =
     \<lparr>user = None, isLoading = True, toast = None, toast_timers = 0,
      isLogin = True, email_input = [], password_input = [], name_input = [],
      loading = False, error = [],
      docs = ds, store_down = False, writes = [], listeners = [], currentUser = None\<rparr>"

section \<open>States used in the examples\<close>

text \<open>
  A first sign-in through the popup flow into an empty store, followed by the callback of
  \<open>onAuthStateChanged\<close>: the profile of \<open>u1\<close> exists with its default values, the mirror
  holds it and a snapshot listener is attached to its document.
\<close>

definition example_account :: firebase_user where
  "example_account =
     \<lparr>fb_uid = ''u1'', displayName = Some ''Sultan'', fb_email = Some ''s@x.com''\<rparr>"

definition example_profile :: User where
  "example_profile = newUser ''u1'' ''Sultan'' ''s@x.com'' 0"

definition example_world :: world where
  "example_world =
     authStateChanged (Some example_account)
       (handleGoogleLogin (Inr example_account) 0 (initial_world Map.empty))"

text \<open>The sign-up form filled in with name \<open>Amira\<close>, email \<open>a@x.com\<close> and password \<open>p\<close>.\<close>

definition signup_form :: world where
  "signup_form =
     setPassword ''p'' (setEmail ''a@x.com'' (setName ''Amira''
       (toggleIsLogin (initial_world Map.empty))))"

section \<open>Facts about the store operations\<close>

lemma updateDoc_writes: "writes (snd (updateDoc k fs w)) = writes w @ [UpdateDoc k fs]"
  by (simp add: updateDoc_def Let_def split: option.splits)

lemma updateDoc_user: "user (snd (updateDoc k fs w)) = user w"
  by (simp add: updateDoc_def Let_def split: option.splits)

lemma updateDoc_toast:
  "toast (snd (updateDoc k fs w)) = toast w \<and>
   toast_timers (snd (updateDoc k fs w)) = toast_timers w"
  by (simp add: updateDoc_def Let_def split: option.splits)

lemma updateDoc_ok:
  "\<not> store_down w \<Longrightarrow> docs w k = Some d \<Longrightarrow>
     updateDoc k fs w =
       (Resolved,
        w\<lparr>writes := writes w @ [UpdateDoc k fs],
          docs := (docs w)(k \<mapsto> merge_fields fs d)\<rparr>)"
  by (simp add: updateDoc_def Let_def)

lemma updateDoc_missing:
  "\<not> store_down w \<Longrightarrow> docs w k = None \<Longrightarrow>
     fst (updateDoc k fs w) = Rejected (StoreError NotFound) \<and>
     docs (snd (updateDoc k fs w)) = docs w"
  by (simp add: updateDoc_def Let_def)

lemma showToast_frame:
  "docs (showToast m c w) = docs w" "store_down (showToast m c w) = store_down w"
  "writes (showToast m c w) = writes w" "user (showToast m c w) = user w"
  "listeners (showToast m c w) = listeners w"
  by (simp_all add: showToast_def)

section \<open>Facts about the example states\<close>

lemma example_profile_fields:
  "uid example_profile = ''u1''" "xp example_profile = 0" "level example_profile = 1"
  "points example_profile = 1000" "isGhostMode example_profile = False"
  by (simp_all add: example_profile_def newUser_def)

lemma example_world_user: "user example_world = Some example_profile"
  by (simp add: example_world_def example_account_def example_profile_def authStateChanged_def
      handleGoogleLogin_def initial_world_def getDoc_def setDoc_def signedIn_def onSnapshot_def
      Let_def)

lemma example_world_docs: "docs example_world = [''u1'' \<mapsto> example_profile]"
  by (simp add: example_world_def example_account_def example_profile_def authStateChanged_def
      handleGoogleLogin_def initial_world_def getDoc_def setDoc_def signedIn_def onSnapshot_def
      Let_def)

lemma example_world_rest:
  "\<not> store_down example_world" "listeners example_world = [''u1'']"
  "toast example_world = None" "toast_timers example_world = 0"
  "writes example_world = [SetDoc ''u1'' example_profile]"
  "currentUser example_world = Some ''u1''"
  by (simp_all add: example_world_def example_account_def example_profile_def
      authStateChanged_def handleGoogleLogin_def initial_world_def getDoc_def setDoc_def
      signedIn_def onSnapshot_def Let_def)

lemma signup_form_simps:
  "\<not> loading signup_form" "\<not> isLogin signup_form" "\<not> store_down signup_form"
  "name_input signup_form = ''Amira''" "email_input signup_form = ''a@x.com''"
  "password_input signup_form = ''p''" "docs signup_form = Map.empty"
  by (simp_all add: signup_form_def setPassword_def setEmail_def setName_def toggleIsLogin_def
      initial_world_def)

lemma show_int_55: "show_int 55 = ''55''"
  by code_simp

section \<open>XP and levels\<close>

text \<open>
  C3: when the mirror holds a profile and \<open>xp + amount\<close> is below \<open>level * 1000\<close>,
  \<open>addXP\<close> sends one update that sets \<open>xp\<close> to \<open>xp + amount\<close> and \<open>level\<close> to the old
  level, and shows no toast (neither the toast nor the number of scheduled toast timers
  changes). When the store answers and holds the document, the stored profile afterwards
  is the old document with exactly these two values written.
\<close>

theorem addXP_below_threshold:
  assumes "user w = Some u" and "xp u + amount < level u * 1000"
  shows "writes (snd (addXP amount w)) =
           writes w @ [UpdateDoc (uid u) [Set_xp (xp u + amount), Set_level (level u)]] \<and>
         toast (snd (addXP amount w)) = toast w \<and>
         toast_timers (snd (addXP amount w)) = toast_timers w \<and>
         (\<not> store_down w \<and> docs w (uid u) = Some d \<longrightarrow>
            fst (addXP amount w) = Resolved \<and>
            docs (snd (addXP amount w)) =
              (docs w)(uid u \<mapsto> d\<lparr>xp := xp u + amount, level := level u\<rparr>))"
proof -
  have eq: "addXP amount w = updateDoc (uid u) [Set_xp (xp u + amount), Set_level (level u)] w"
    using assms by (simp add: addXP_def Let_def)
  show ?thesis
    unfolding eq using updateDoc_ok [of w "uid u" d]
    by (simp add: updateDoc_writes updateDoc_toast)
qed

theorem addXP_below_threshold_witness:
  "user example_world = Some example_profile \<and>
   xp example_profile + 300 < level example_profile * 1000 \<and>
   fst (addXP 300 example_world) = Resolved \<and>
   docs (snd (addXP 300 example_world)) ''u1'' = Some (example_profile\<lparr>xp := 300, level := 1\<rparr>) \<and>
   toast (snd (addXP 300 example_world)) = None \<and>
   toast_timers (snd (addXP 300 example_world)) = 0"
proof -
  have h1: "user example_world = Some example_profile" by (rule example_world_user)
  have h2: "xp example_profile + 300 < level example_profile * 1000"
    by (simp add: example_profile_fields)
  have h3: "\<not> store_down example_world \<and>
      docs example_world (uid example_profile) = Some example_profile"
    by (simp add: example_world_rest example_world_docs example_profile_fields)
  from addXP_below_threshold [OF h1 h2, of example_profile] h3 h1 h2
  show ?thesis by (simp add: example_profile_fields example_world_rest)
qed

text \<open>
  C1: when the mirror holds a profile and \<open>xp + amount\<close> reaches \<open>level * 1000\<close>,
  \<open>addXP\<close> sends one update that sets \<open>level\<close> to the old level plus one and \<open>xp\<close> to
  \<open>xp + amount - level * 1000\<close>, with the threshold of the old level, and shows the
  level-up toast. There is no upper bound on \<open>xp + amount\<close> in the hypotheses: the level
  advances by one also when the sum is twice the threshold or more. When the store answers
  and holds the document, the stored profile afterwards carries these two values.
\<close>

theorem addXP_level_up:
  assumes "user w = Some u" and "level u * 1000 \<le> xp u + amount"
  shows "writes (snd (addXP amount w)) =
           writes w @ [UpdateDoc (uid u)
                         [Set_xp (xp u + amount - level u * 1000), Set_level (level u + 1)]] \<and>
         toast (snd (addXP amount w)) = Some (level_up_message (level u + 1), ''#ffd700'') \<and>
         toast_timers (snd (addXP amount w)) = Suc (toast_timers w) \<and>
         (\<not> store_down w \<and> docs w (uid u) = Some d \<longrightarrow>
            fst (addXP amount w) = Resolved \<and>
            docs (snd (addXP amount w)) =
              (docs w)(uid u \<mapsto>
                 d\<lparr>xp := xp u + amount - level u * 1000, level := level u + 1\<rparr>))"
proof -
  let ?w = "showToast (level_up_message (level u + 1)) (Some ''#ffd700'') w"
  have eq: "addXP amount w =
      updateDoc (uid u) [Set_xp (xp u + amount - level u * 1000), Set_level (level u + 1)] ?w"
    using assms by (simp add: addXP_def Let_def)
  have t: "toast ?w = Some (level_up_message (level u + 1), ''#ffd700'')"
    "toast_timers ?w = Suc (toast_timers w)"
    by (simp_all add: showToast_def)
  show ?thesis
    unfolding eq using updateDoc_ok [of ?w "uid u" d]
    by (simp add: updateDoc_writes updateDoc_toast t showToast_frame)
qed

theorem addXP_level_up_witness:
  "user example_world = Some example_profile \<and>
   xp example_profile = 0 \<and> level example_profile = 1 \<and>
   fst (addXP 1200 example_world) = Resolved \<and>
   docs (snd (addXP 1200 example_world)) ''u1'' = Some (example_profile\<lparr>xp := 200, level := 2\<rparr>) \<and>
   toast (snd (addXP 1200 example_world)) = Some (level_up_message 2, ''#ffd700'') \<and>
   docs (snd (addXP 5000 example_world)) ''u1'' = Some (example_profile\<lparr>xp := 4000, level := 2\<rparr>)"
proof -
  have h1: "user example_world = Some example_profile" by (rule example_world_user)
  have h2: "level example_profile * 1000 \<le> xp example_profile + 1200"
    and h2': "level example_profile * 1000 \<le> xp example_profile + 5000"
    by (simp_all add: example_profile_fields)
  have h3: "\<not> store_down example_world \<and>
      docs example_world (uid example_profile) = Some example_profile"
    by (simp add: example_world_rest example_world_docs example_profile_fields)
  from addXP_level_up [OF h1 h2, of example_profile]
    addXP_level_up [OF h1 h2', of example_profile] h3 h1
  show ?thesis by (simp add: example_profile_fields)
qed

section \<open>What the mutations write and what they leave alone\<close>

lemma addXP_user: "user (snd (addXP amount w)) = user w"
  by (simp add: addXP_def Let_def updateDoc_user showToast_frame split: option.splits)

lemma updatePoints_user: "user (snd (updatePoints amount w)) = user w"
  by (simp add: updatePoints_def updateDoc_user split: option.splits)

text \<open>
  C9: \<open>addXP\<close> sends one merge-write of the fields \<open>xp\<close> and \<open>level\<close>, and
  \<open>updatePoints\<close> one merge-write of the field \<open>points\<close>, both to the document of the
  mirrored profile. When the store answers and holds that document, the documents
  afterwards are the old ones with that document replaced by itself with only these
  fields updated, so \<open>uid\<close>, \<open>name\<close>, \<open>email\<close>, \<open>role\<close>, \<open>isGhostMode\<close>,
  \<open>twoFactorEnabled\<close> and \<open>joinedAt\<close> keep their stored values. Neither operation
  changes the mirror, in any state.
\<close>

theorem mutation_frame:
  "(user w = Some u \<and> docs w (uid u) = Some d \<and> \<not> store_down w \<longrightarrow>
      docs (snd (addXP amount w)) =
        (docs w)(uid u \<mapsto>
           d\<lparr>xp := (if level u * 1000 \<le> xp u + amount
                     then xp u + amount - level u * 1000 else xp u + amount),
             level := (if level u * 1000 \<le> xp u + amount then level u + 1 else level u)\<rparr>) \<and>
      docs (snd (updatePoints amount w)) =
        (docs w)(uid u \<mapsto> d\<lparr>points := points u + amount\<rparr>)) \<and>
   (user w = Some u \<longrightarrow>
      (\<exists>x l. writes (snd (addXP amount w)) =
                writes w @ [UpdateDoc (uid u) [Set_xp x, Set_level l]]) \<and>
      writes (snd (updatePoints amount w)) =
        writes w @ [UpdateDoc (uid u) [Set_points (points u + amount)]]) \<and>
   user (snd (addXP amount w)) = user w \<and>
   user (snd (updatePoints amount w)) = user w"
proof -
  let ?t = "showToast (level_up_message (level u + 1)) (Some ''#ffd700'') w"
  have a: "docs (snd (addXP amount w)) =
           (docs w)(uid u \<mapsto>
              d\<lparr>xp := (if level u * 1000 \<le> xp u + amount
                        then xp u + amount - level u * 1000 else xp u + amount),
                level := (if level u * 1000 \<le> xp u + amount then level u + 1 else level u)\<rparr>)"
    if "user w = Some u" "docs w (uid u) = Some d" "\<not> store_down w"
    using that
    by (simp add: addXP_def Let_def updateDoc_ok [of ?t "uid u" d] updateDoc_ok [of w "uid u" d]
        showToast_frame)
  have p: "docs (snd (updatePoints amount w)) =
           (docs w)(uid u \<mapsto> d\<lparr>points := points u + amount\<rparr>)"
    if "user w = Some u" "docs w (uid u) = Some d" "\<not> store_down w"
    using that by (simp add: updatePoints_def updateDoc_ok [of w "uid u" d])
  have wa: "\<exists>x l. writes (snd (addXP amount w)) =
                   writes w @ [UpdateDoc (uid u) [Set_xp x, Set_level l]]"
    if "user w = Some u"
    using that by (simp add: addXP_def Let_def updateDoc_writes showToast_frame)
  have wp: "writes (snd (updatePoints amount w)) =
              writes w @ [UpdateDoc (uid u) [Set_points (points u + amount)]]"
    if "user w = Some u"
    using that by (simp add: updatePoints_def updateDoc_writes)
  from a p wa wp addXP_user [of amount w] updatePoints_user [of amount w]
  show ?thesis by blast
qed

theorem mutation_frame_witness:
  "docs (snd (addXP 300 example_world)) = [''u1'' \<mapsto> example_profile\<lparr>xp := 300, level := 1\<rparr>] \<and>
   docs (snd (updatePoints 50 example_world)) = [''u1'' \<mapsto> example_profile\<lparr>points := 1050\<rparr>] \<and>
   writes (snd (updatePoints 50 example_world)) =
     [SetDoc ''u1'' example_profile, UpdateDoc ''u1'' [Set_points 1050]] \<and>
   user (snd (addXP 300 example_world)) = Some example_profile \<and>
   user (snd (updatePoints 50 example_world)) = Some example_profile"
proof -
  have h: "user example_world = Some example_profile \<and>
      docs example_world (uid example_profile) = Some example_profile \<and>
      \<not> store_down example_world"
    by (simp add: example_world_user example_world_docs example_world_rest
        example_profile_fields)
  from mutation_frame [of example_world example_profile example_profile 300]
    mutation_frame [of example_world example_profile example_profile 50] h
  show ?thesis
    by (simp add: example_profile_fields example_world_docs example_world_rest
        example_world_user)
qed

text \<open>
  C10: while the mirror is null, \<open>addXP\<close>, \<open>updatePoints\<close> and \<open>handleToggleGhost\<close>
  return at once and leave the whole state as it was, for every amount: the list of
  writes sent to the store, the toast and its timers, and the mirror are unchanged.
\<close>

theorem null_mirror_noop:
  "user w = None \<Longrightarrow>
     addXP amount w = (Resolved, w) \<and>
     updatePoints amount w = (Resolved, w) \<and>
     handleToggleGhost w = (Resolved, w)"
  by (simp add: addXP_def updatePoints_def handleToggleGhost_def)

theorem null_mirror_noop_witness:
  "user (initial_world Map.empty) = None \<and>
   addXP 1200 (initial_world Map.empty) = (Resolved, initial_world Map.empty) \<and>
   updatePoints 50 (initial_world Map.empty) = (Resolved, initial_world Map.empty) \<and>
   handleToggleGhost (initial_world Map.empty) = (Resolved, initial_world Map.empty)"
proof -
  have h: "user (initial_world Map.empty) = None" by (simp add: initial_world_def)
  from null_mirror_noop [OF h, of 1200] null_mirror_noop [OF h, of 50] h
  show ?thesis by simp
qed

section \<open>Ghost mode\<close>

lemma handleToggleGhost_ok:
  assumes "user w = Some u" and "docs w (uid u) = Some d" and "\<not> store_down w"
  shows "handleToggleGhost w =
     (Resolved,
      showToast (if isGhostMode u then msg_ghost_off else msg_ghost_on) None
        (w\<lparr>writes := writes w @ [UpdateDoc (uid u) [Set_isGhostMode (\<not> isGhostMode u)]],
           docs := (docs w)(uid u \<mapsto> d\<lparr>isGhostMode := \<not> isGhostMode u\<rparr>)\<rparr>))"
  using assms by (simp add: handleToggleGhost_def updateDoc_ok [of w "uid u" d])

lemma msg_ghost_distinct: "msg_ghost_on \<noteq> msg_ghost_off"
  by (simp add: msg_ghost_on_def msg_ghost_off_def)

text \<open>
  C5, as amended: \<open>handleToggleGhost\<close> writes the negation of the mirror's
  \<open>isGhostMode\<close>, and the toast of a call is chosen by the value the mirror had before
  that call. Take a state in which the mirror agrees with the stored document on \<open>uid\<close>
  and \<open>isGhostMode\<close>, a snapshot listener is attached to the document and the store
  answers. Toggle, let the listener deliver the snapshot of the write to the mirror, and
  toggle again: the stored document is back to what it was, the first call shows one of
  the two texts and the second call the other, and the two texts differ. The delivery
  between the two calls is needed, as the counterexample below shows.
\<close>

theorem toggle_twice:
  assumes "user w = Some u" and "docs w (uid u) = Some d" and "uid d = uid u"
    and "isGhostMode d = isGhostMode u" and "uid u \<in> set (listeners w)"
    and "\<not> store_down w"
  shows "(let w1 = snd (handleToggleGhost w);
              w2 = snd (handleToggleGhost (deliver_snapshot (uid u) w1))
          in writes w1 = writes w @ [UpdateDoc (uid u) [Set_isGhostMode (\<not> isGhostMode u)]] \<and>
             docs w1 (uid u) = Some (d\<lparr>isGhostMode := \<not> isGhostMode u\<rparr>) \<and>
             docs w2 (uid u) = Some d \<and>
             toast w1 =
               Some (if isGhostMode u then msg_ghost_off else msg_ghost_on, ''#ffd700'') \<and>
             toast w2 =
               Some (if isGhostMode u then msg_ghost_on else msg_ghost_off, ''#ffd700'') \<and>
             map_option fst (toast w1) \<noteq> map_option fst (toast w2))"
proof -
  define d1 where "d1 = d\<lparr>isGhostMode := \<not> isGhostMode u\<rparr>"
  define w1 where "w1 = snd (handleToggleGhost w)"
  define v where "v = deliver_snapshot (uid u) w1"
  define w2 where "w2 = snd (handleToggleGhost v)"
  have w1: "w1 = showToast (if isGhostMode u then msg_ghost_off else msg_ghost_on) None
        (w\<lparr>writes := writes w @ [UpdateDoc (uid u) [Set_isGhostMode (\<not> isGhostMode u)]],
           docs := (docs w)(uid u \<mapsto> d1)\<rparr>)"
    unfolding w1_def d1_def using handleToggleGhost_ok [OF assms(1,2,6)] by simp
  have w1_docs: "docs w1 (uid u) = Some d1" and w1_down: "\<not> store_down w1"
    and w1_lis: "uid u \<in> set (listeners w1)"
    and w1_writes: "writes w1 =
      writes w @ [UpdateDoc (uid u) [Set_isGhostMode (\<not> isGhostMode u)]]"
    and w1_toast: "toast w1 =
      Some (if isGhostMode u then msg_ghost_off else msg_ghost_on, ''#ffd700'')"
    using assms(5,6) by (simp_all add: w1 showToast_def)
  have v: "v = w1\<lparr>user := Some d1\<rparr>"
    unfolding v_def using w1_docs w1_lis by (simp add: deliver_snapshot_def snapshot_callback_def)
  have d1_uid: "uid d1 = uid u" and d1_ghost: "isGhostMode d1 = (\<not> isGhostMode u)"
    using assms(3) by (simp_all add: d1_def)
  have v_user: "user v = Some d1" and v_docs: "docs v (uid d1) = Some d1"
    and v_down: "\<not> store_down v"
    using w1_docs w1_down by (simp_all add: v d1_uid)
  have undo: "d1\<lparr>isGhostMode := isGhostMode u\<rparr> = d"
    using assms(4) by (simp add: d1_def)
  have w2: "w2 = showToast (if isGhostMode u then msg_ghost_on else msg_ghost_off) None
        (v\<lparr>writes := writes v @ [UpdateDoc (uid u) [Set_isGhostMode (isGhostMode u)]],
           docs := (docs v)(uid u \<mapsto> d)\<rparr>)"
    unfolding w2_def using handleToggleGhost_ok [OF v_user v_docs v_down]
    by (simp add: d1_uid d1_ghost undo)
  have w2_docs: "docs w2 (uid u) = Some d"
    and w2_toast: "toast w2 =
      Some (if isGhostMode u then msg_ghost_on else msg_ghost_off, ''#ffd700'')"
    by (simp_all add: w2 showToast_def)
  have "map_option fst (toast w1) \<noteq> map_option fst (toast w2)"
    using msg_ghost_distinct by (simp add: w1_toast w2_toast)
  with w1_docs w2_docs w1_toast w2_toast w1_writes show ?thesis
    unfolding Let_def w1_def [symmetric] v_def [symmetric] w2_def [symmetric] d1_def [symmetric]
    by simp
qed

theorem toggle_twice_witness:
  "user example_world = Some example_profile \<and>
   docs example_world ''u1'' = Some example_profile \<and>
   ''u1'' \<in> set (listeners example_world) \<and>
   isGhostMode example_profile = False \<and>
   docs (snd (handleToggleGhost example_world)) ''u1'' =
     Some (example_profile\<lparr>isGhostMode := True\<rparr>) \<and>
   docs (snd (handleToggleGhost
               (deliver_snapshot ''u1'' (snd (handleToggleGhost example_world))))) ''u1'' =
     Some example_profile \<and>
   toast (snd (handleToggleGhost example_world)) = Some (msg_ghost_on, ''#ffd700'') \<and>
   toast (snd (handleToggleGhost
               (deliver_snapshot ''u1'' (snd (handleToggleGhost example_world))))) =
     Some (msg_ghost_off, ''#ffd700'')"
proof -
  have h1: "user example_world = Some example_profile" by (rule example_world_user)
  have h2: "docs example_world (uid example_profile) = Some example_profile"
    by (simp add: example_world_docs example_profile_fields)
  have h3: "uid example_profile = uid example_profile"
    and h4: "isGhostMode example_profile = isGhostMode example_profile" by simp_all
  have h5: "uid example_profile \<in> set (listeners example_world)"
    by (simp add: example_world_rest example_profile_fields)
  have h6: "\<not> store_down example_world" by (simp add: example_world_rest)
  from toggle_twice [OF h1 h2 h3 h4 h5 h6] h1 h2 h5
  show ?thesis unfolding Let_def example_profile_fields by simp
qed

text \<open>
  C5, as stated, fails when the second call follows the first before the mirror has
  received the snapshot of the first write. In the example state the mirror holds
  \<open>isGhostMode = False\<close>; both calls read that value, both send the write
  \<open>isGhostMode := True\<close> and both show the same toast, so the stored flag ends flipped and
  not at its original value.
\<close>

theorem toggle_twice_back_to_back_counterexample:
  "(let w1 = snd (handleToggleGhost example_world);
        w2 = snd (handleToggleGhost w1)
    in isGhostMode example_profile = False \<and>
       user w1 = Some example_profile \<and>
       writes w2 =
         writes example_world @
           [UpdateDoc ''u1'' [Set_isGhostMode True], UpdateDoc ''u1'' [Set_isGhostMode True]] \<and>
       docs example_world ''u1'' = Some example_profile \<and>
       docs w2 ''u1'' = Some (example_profile\<lparr>isGhostMode := True\<rparr>) \<and>
       map_option isGhostMode (docs w2 ''u1'') \<noteq>
         map_option isGhostMode (docs example_world ''u1'') \<and>
       toast w1 = Some (msg_ghost_on, ''#ffd700'') \<and>
       toast w2 = Some (msg_ghost_on, ''#ffd700'') \<and>
       map_option fst (toast w1) = map_option fst (toast w2))"
proof -
  define w1 where "w1 = snd (handleToggleGhost example_world)"
  have h: "user example_world = Some example_profile"
    "docs example_world (uid example_profile) = Some example_profile"
    "\<not> store_down example_world"
    by (simp_all add: example_world_user example_world_docs example_world_rest
        example_profile_fields)
  have w1: "w1 = showToast msg_ghost_on None
      (example_world\<lparr>writes := writes example_world @ [UpdateDoc ''u1'' [Set_isGhostMode True]],
         docs := (docs example_world)(''u1'' \<mapsto> example_profile\<lparr>isGhostMode := True\<rparr>)\<rparr>)"
    unfolding w1_def using handleToggleGhost_ok [OF h] by (simp add: example_profile_fields)
  have g: "user w1 = Some example_profile"
    "docs w1 (uid example_profile) = Some (example_profile\<lparr>isGhostMode := True\<rparr>)"
    "\<not> store_down w1"
    using h by (simp_all add: w1 showToast_def example_profile_fields)
  have w2: "snd (handleToggleGhost w1) = showToast msg_ghost_on None
      (w1\<lparr>writes := writes w1 @ [UpdateDoc ''u1'' [Set_isGhostMode True]],
         docs := (docs w1)(''u1'' \<mapsto> example_profile\<lparr>isGhostMode := True\<rparr>)\<rparr>)"
    using handleToggleGhost_ok [OF g] by (simp add: example_profile_fields)
  show ?thesis
    unfolding Let_def w1_def [symmetric] w2
    by (simp add: w1 showToast_def example_world_docs example_world_user
        example_profile_fields)
qed

section \<open>Sign-out\<close>

lemma handleLogout_ok:
  "handleLogout None w =
     (Resolved,
      (showToast msg_logged_out (Some ''#ff4444'')
         (w\<lparr>isLoading := True, currentUser := None, user := None\<rparr>))\<lparr>isLoading := False\<rparr>)"
  by (simp add: handleLogout_def signOut_def)

lemma handleLogout_listeners: "listeners (snd (handleLogout failure w)) = listeners w"
  by (simp add: handleLogout_def signOut_def showToast_def split: option.splits)

text \<open>
  C4: the account \<open>u1\<close> is signed in with its listener attached. \<open>handleLogout\<close>
  completes: the session is over and the mirror is null, but the listener of the document
  is still attached, as nothing in \<open>handleLogout\<close> detaches it. Another client then edits
  the document and the store delivers the snapshot: the callback sets the mirror to the
  edited profile.
\<close>

theorem logout_leaves_listener_attached:
  "(let w1 = snd (handleLogout None example_world);
        w2 = deliver_snapshot ''u1''
               (remote_write ''u1'' (example_profile\<lparr>points := 5000\<rparr>) w1)
    in fst (handleLogout None example_world) = Resolved \<and>
       user w1 = None \<and> currentUser w1 = None \<and>
       listeners w1 = [''u1''] \<and>
       user w2 = Some (example_profile\<lparr>points := 5000\<rparr>))"
  by (simp add: handleLogout_ok showToast_def example_world_rest example_world_docs
      deliver_snapshot_def snapshot_callback_def remote_write_def Let_def)

section \<open>Creating the profile on sign-in\<close>

lemma handleGoogleLogin_docs:
  "docs (handleGoogleLogin answer now w) =
     (case answer of
        Inl e \<Rightarrow> docs w
      | Inr fu \<Rightarrow>
          if store_down w then docs w
          else (case docs w (fb_uid fu) of
                  Some d \<Rightarrow> docs w
                | None \<Rightarrow>
                    (docs w)(fb_uid fu \<mapsto>
                       newUser (fb_uid fu) (or_else (displayName fu) default_google_name)
                         (or_else (fb_email fu) []) now)))"
  by (simp add: handleGoogleLogin_def getDoc_def setDoc_def signedIn_def Let_def
      split: sum.splits option.splits)

lemma handleGoogleLogin_store_down:
  "store_down (handleGoogleLogin answer now w) = store_down w"
  by (simp add: handleGoogleLogin_def getDoc_def setDoc_def signedIn_def Let_def
      split: sum.splits option.splits)

lemma handleGoogleLogin_writes_existing:
  "docs w (fb_uid fu) = Some p \<Longrightarrow> writes (handleGoogleLogin (Inr fu) now w) = writes w"
  by (simp add: handleGoogleLogin_def getDoc_def setDoc_def signedIn_def Let_def)

lemma onTelegramAuth_docs:
  "docs (onTelegramAuth answer now tgUser w) =
     (case answer of
        Inl e \<Rightarrow> docs w
      | Inr fu \<Rightarrow>
          if store_down w then docs w
          else (case docs w (fb_uid fu) of
                  Some d \<Rightarrow> docs w
                | None \<Rightarrow>
                    (docs w)(fb_uid fu \<mapsto>
                       newUser (fb_uid fu) (tg_name tgUser) (tg_email tgUser) now)))"
  by (simp add: onTelegramAuth_def getDoc_def setDoc_def signedIn_def Let_def
      split: sum.splits option.splits)

lemma onTelegramAuth_store_down:
  "store_down (onTelegramAuth answer now tgUser w) = store_down w"
  by (simp add: onTelegramAuth_def getDoc_def setDoc_def signedIn_def Let_def
      split: sum.splits option.splits)

lemma onTelegramAuth_writes_existing:
  "docs w (fb_uid fu) = Some p \<Longrightarrow> writes (onTelegramAuth (Inr fu) now tgUser w) = writes w"
  by (simp add: onTelegramAuth_def getDoc_def setDoc_def signedIn_def Let_def)

text \<open>
  C2: the create-if-absent step of the popup sign-in (\<open>handleGoogleLogin\<close>) and of the
  bridged sign-in (\<open>onTelegramAuth\<close>). When the store already holds a profile for the
  account, the step sends no write and leaves every document as it is, whatever display
  name, email, payload and time it is given. For every state, running the step a second
  time for the same account, with any other attributes, leaves the documents as the first
  run left them.
\<close>

theorem ensureProfile_keeps_existing:
  assumes "fb_uid fu' = fb_uid fu"
  shows "(docs w (fb_uid fu) = Some p \<longrightarrow>
            docs (handleGoogleLogin (Inr fu) now w) = docs w \<and>
            writes (handleGoogleLogin (Inr fu) now w) = writes w \<and>
            docs (onTelegramAuth (Inr fu) now tgUser w) = docs w \<and>
            writes (onTelegramAuth (Inr fu) now tgUser w) = writes w) \<and>
         docs (handleGoogleLogin (Inr fu') now' (handleGoogleLogin (Inr fu) now w)) =
           docs (handleGoogleLogin (Inr fu) now w) \<and>
         docs (onTelegramAuth (Inr fu') now' tgUser' (onTelegramAuth (Inr fu) now tgUser w)) =
           docs (onTelegramAuth (Inr fu) now tgUser w)"
proof -
  have existing: "docs (handleGoogleLogin (Inr fu) now w) = docs w \<and>
            writes (handleGoogleLogin (Inr fu) now w) = writes w \<and>
            docs (onTelegramAuth (Inr fu) now tgUser w) = docs w \<and>
            writes (onTelegramAuth (Inr fu) now tgUser w) = writes w"
    if "docs w (fb_uid fu) = Some p"
    using that
    by (simp add: handleGoogleLogin_docs onTelegramAuth_docs handleGoogleLogin_writes_existing
        onTelegramAuth_writes_existing)
  have twice: "docs (handleGoogleLogin (Inr fu') now' (handleGoogleLogin (Inr fu) now w)) =
           docs (handleGoogleLogin (Inr fu) now w) \<and>
         docs (onTelegramAuth (Inr fu') now' tgUser' (onTelegramAuth (Inr fu) now tgUser w)) =
           docs (onTelegramAuth (Inr fu) now tgUser w)"
    using assms
    by (simp add: handleGoogleLogin_docs onTelegramAuth_docs handleGoogleLogin_store_down
        onTelegramAuth_store_down split: option.splits)
  from existing twice show ?thesis by blast
qed

theorem ensureProfile_keeps_existing_witness:
  "docs example_world ''u1'' = Some example_profile \<and>
   docs (handleGoogleLogin
           (Inr \<lparr>fb_uid = ''u1'', displayName = Some ''Other'', fb_email = Some ''o@y.org''\<rparr>)
           99 example_world) = docs example_world \<and>
   writes (handleGoogleLogin
           (Inr \<lparr>fb_uid = ''u1'', displayName = Some ''Other'', fb_email = Some ''o@y.org''\<rparr>)
           99 example_world) = writes example_world \<and>
   docs (handleGoogleLogin
           (Inr \<lparr>fb_uid = ''u1'', displayName = Some ''Other'', fb_email = Some ''o@y.org''\<rparr>)
           99 example_world) ''u1'' = Some example_profile"
proof -
  let ?fu = "\<lparr>fb_uid = ''u1'', displayName = Some ''Other'', fb_email = Some ''o@y.org''\<rparr>"
  have h1: "fb_uid ?fu = fb_uid ?fu" by simp
  have h2: "docs example_world (fb_uid ?fu) = Some example_profile"
    by (simp add: example_world_docs)
  from ensureProfile_keeps_existing [OF h1, of example_world example_profile 99] h2
  show ?thesis by simp
qed

text \<open>
  C6: a password sign-up that is not already in flight, against a store that answers,
  with a name typed in: the document written for the new account has the new account's
  uid, the typed name and email, 1000 points, 0 xp, level 1, role member, both flags
  false, and the current time as \<open>joinedAt\<close>.
\<close>

theorem signup_creates_default_profile:
  assumes "\<not> loading w" and "\<not> isLogin w" and "\<not> store_down w" and "name_input w \<noteq> []"
  shows "docs (handleSubmit (Inr fu) now w) (fb_uid fu) =
           Some \<lparr>uid = fb_uid fu, name = name_input w, email = email_input w,
                 points = 1000, xp = 0, level = 1, role = ''member'',
                 isGhostMode = False, twoFactorEnabled = False, joinedAt = now\<rparr>"
  using assms
  by (simp add: handleSubmit_def setDoc_def signedIn_def newUser_def Let_def)

theorem signup_creates_default_profile_witness:
  "\<not> loading signup_form \<and> \<not> isLogin signup_form \<and> \<not> store_down signup_form \<and>
   name_input signup_form = ''Amira'' \<and> email_input signup_form = ''a@x.com'' \<and>
   password_input signup_form = ''p'' \<and>
   docs (handleSubmit (Inr \<lparr>fb_uid = ''u7'', displayName = None, fb_email = Some ''a@x.com''\<rparr>)
           42 signup_form) ''u7'' =
     Some \<lparr>uid = ''u7'', name = ''Amira'', email = ''a@x.com'',
           points = 1000, xp = 0, level = 1, role = ''member'',
           isGhostMode = False, twoFactorEnabled = False, joinedAt = 42\<rparr>"
proof -
  have h4: "name_input signup_form \<noteq> []" by (simp add: signup_form_simps)
  from signup_creates_default_profile [OF signup_form_simps(1,2,3) h4,
      of "\<lparr>fb_uid = ''u7'', displayName = None, fb_email = Some ''a@x.com''\<rparr>" 42]
  show ?thesis by (simp add: signup_form_simps)
qed

text \<open>
  C7: a bridged sign-in for an account without a profile, against a store that answers.
  The document written has \<open>first_name\<close> as its name, followed by a space and
  \<open>last_name\<close> when the payload carries a non-empty one; its email is \<open>@\<close> followed by
  \<open>username\<close> when the payload carries a non-empty one, and \<open>tg_\<close> followed by the decimal
  id otherwise; the other fields have the default values.
\<close>

theorem telegram_creates_profile:
  assumes "\<not> store_down w" and "docs w (fb_uid fu) = None"
  shows "docs (onTelegramAuth (Inr fu) now tgUser w) (fb_uid fu) =
           Some \<lparr>uid = fb_uid fu,
                 name = first_name tgUser @
                   (case last_name tgUser of
                      None \<Rightarrow> []
                    | Some l \<Rightarrow> if l = [] then [] else '' '' @ l),
                 email =
                   (case username tgUser of
                      None \<Rightarrow> ''tg_'' @ show_int (tg_id tgUser)
                    | Some h \<Rightarrow>
                        if h = [] then ''tg_'' @ show_int (tg_id tgUser) else ''@'' @ h),
                 points = 1000, xp = 0, level = 1, role = ''member'',
                 isGhostMode = False, twoFactorEnabled = False, joinedAt = now\<rparr>"
  using assms
  by (simp add: onTelegramAuth_docs newUser_def tg_name_def tg_email_def)

theorem telegram_creates_profile_witness:
  "docs (onTelegramAuth (Inr \<lparr>fb_uid = ''anon1'', displayName = None, fb_email = None\<rparr>) 7
           \<lparr>tg_id = 55, first_name = ''Omar'', last_name = None, username = Some ''omarx''\<rparr>
           (initial_world Map.empty)) ''anon1'' =
     Some \<lparr>uid = ''anon1'', name = ''Omar'', email = ''@omarx'',
           points = 1000, xp = 0, level = 1, role = ''member'',
           isGhostMode = False, twoFactorEnabled = False, joinedAt = 7\<rparr> \<and>
   docs (onTelegramAuth (Inr \<lparr>fb_uid = ''anon1'', displayName = None, fb_email = None\<rparr>) 7
           \<lparr>tg_id = 55, first_name = ''Omar'', last_name = Some ''Said'', username = None\<rparr>
           (initial_world Map.empty)) ''anon1'' =
     Some \<lparr>uid = ''anon1'', name = ''Omar Said'', email = ''tg_55'',
           points = 1000, xp = 0, level = 1, role = ''member'',
           isGhostMode = False, twoFactorEnabled = False, joinedAt = 7\<rparr>"
proof -
  have h1: "\<not> store_down (initial_world Map.empty)" by (simp add: initial_world_def)
  have h2: "docs (initial_world Map.empty)
      (fb_uid \<lparr>fb_uid = ''anon1'', displayName = None, fb_email = None\<rparr>) = None"
    by (simp add: initial_world_def)
  from telegram_creates_profile [OF h1 h2, of 7
      "\<lparr>tg_id = 55, first_name = ''Omar'', last_name = None, username = Some ''omarx''\<rparr>"]
    telegram_creates_profile [OF h1 h2, of 7
      "\<lparr>tg_id = 55, first_name = ''Omar'', last_name = Some ''Said'', username = None\<rparr>"]
  show ?thesis by (simp add: show_int_55)
qed

section \<open>The message of a failed password sign-in\<close>

text \<open>
  C8: when the call to the authentication provider made by \<open>handleSubmit\<close> fails, the
  error shown depends on the error only through one test: the code
  \<open>auth/user-not-found\<close> gives the message for an unknown user, and every other error
  gives one and the same message. The two messages differ.
\<close>

theorem signin_failure_message:
  assumes "\<not> loading w"
  shows "error (handleSubmit (Inl e) now w) =
           (if error_code e = ''auth/user-not-found'' then msg_user_not_found
            else msg_bad_credentials) \<and>
         msg_user_not_found \<noteq> msg_bad_credentials"
  using assms
  by (simp add: handleSubmit_def submit_error_def Let_def msg_user_not_found_def
      msg_bad_credentials_def)

theorem signin_failure_message_witness:
  "\<not> loading (initial_world Map.empty) \<and> isLogin (initial_world Map.empty) \<and>
   error (handleSubmit (Inl (AuthError ''auth/wrong-password'')) 0 (initial_world Map.empty)) =
     msg_bad_credentials \<and>
   error (handleSubmit (Inl (AuthError ''auth/network-request-failed'')) 0
            (initial_world Map.empty)) = msg_bad_credentials \<and>
   error (handleSubmit (Inl (AuthError ''auth/user-not-found'')) 0 (initial_world Map.empty)) =
     msg_user_not_found"
proof -
  have h: "\<not> loading (initial_world Map.empty)" by (simp add: initial_world_def)
  from signin_failure_message [OF h, of "AuthError ''auth/wrong-password''" 0]
    signin_failure_message [OF h, of "AuthError ''auth/network-request-failed''" 0]
    signin_failure_message [OF h, of "AuthError ''auth/user-not-found''" 0]
  show ?thesis by (simp add: initial_world_def)
qed

end
